theory Spec2Isabelle
  imports Main
begin

section \<open>Python values, errors and string primitives\<close>

text \<open>
  The script is \<^verbatim>\<open>pyodbc_setup.py\<close>.  Strings are lists of characters, Python's
  unbounded integers are \<^typ>\<open>int\<close>, and every exception the modelled statements can
  raise is a value of \<open>error\<close>, returned on the left of a sum.
\<close>

datatype error =
    ValueError | IndexError | TypeError | IOError | UnicodeDecodeError | SystemExit string

definition OFFICIAL_BUILD :: int where
  "OFFICIAL_BUILD = 9999"


text \<open>The character classes of the two patterns, over the byte strings the script
  handles: \<^verbatim>\<open>\d\<close> is the ten decimal digits, \<^verbatim>\<open>\s\<close> is space, tab, newline, carriage
  return, vertical tab and form feed, \<^verbatim>\<open>.\<close> is anything but a newline (no DOTALL flag
  is given) and \<^verbatim>\<open>[0-9a-z]\<close> is a digit or a lower-case letter.\<close>

definition is_digit :: "char \<Rightarrow> bool" where
  "is_digit c = (c \<in> set ''0123456789'')"

definition is_space :: "char \<Rightarrow> bool" where
  "is_space c = (c \<in> set [CHR '' '', CHR 0x09, CHR 0x0A, CHR 0x0D, CHR 0x0B, CHR 0x0C])"

definition is_lower :: "char \<Rightarrow> bool" where
  "is_lower c = (c \<in> set ''abcdefghijklmnopqrstuvwxyz'')"

text \<open>\<^verbatim>\<open>s.strip()\<close> and \<^verbatim>\<open>s.rstrip('\n')\<close>.\<close>

definition rstrip_with :: "(char \<Rightarrow> bool) \<Rightarrow> string \<Rightarrow> string" where
  "rstrip_with P s = rev (dropWhile P (rev s))"

definition strip :: "string \<Rightarrow> string" where
  "strip s = dropWhile is_space (rstrip_with is_space s)"

definition rstrip_nl :: "string \<Rightarrow> string" where
  "rstrip_nl s = rstrip_with (\<lambda>c. c = CHR 0x0A) s"

text \<open>\<^verbatim>\<open>s.split(sep, 1)\<close> for a one-character separator: one piece when the separator
  does not occur, otherwise the text before its first occurrence and the text after it.\<close>

definition split_once :: "char \<Rightarrow> string \<Rightarrow> string list" where
  "split_once sep s =
     (case dropWhile (\<lambda>c. c \<noteq> sep) s of
        [] \<Rightarrow> [s]
      | _ # t \<Rightarrow> [takeWhile (\<lambda>c. c \<noteq> sep) s, t])"

text \<open>\<^verbatim>\<open>xs[i]\<close>: negative indices count from the end, out of range raises IndexError.\<close>

definition item :: "'a list \<Rightarrow> int \<Rightarrow> error + 'a" where
  "item xs i =
     (if 0 \<le> i \<and> i < int (length xs) then Inr (xs ! nat i)
      else if i < 0 \<and> - int (length xs) \<le> i then Inr (xs ! nat (int (length xs) + i))
      else Inl IndexError)"

text \<open>\<^verbatim>\<open>int(s)\<close> on a string.  Python also accepts a sign, surrounding blanks and
  underscores; the model raises ValueError for everything but a non-empty run of
  decimal digits, which is all that a \<^verbatim>\<open>(\d+)\<close> group can hand over.  A run of digits
  of any length is converted: the limit on the number of digits that CPython has from
  version 3.11 on is not modelled.\<close>

definition digit_val :: "char \<Rightarrow> int" where
  "digit_val c = int (of_char c) - 48"

definition dec :: "string \<Rightarrow> int" where
  "dec s = foldl (\<lambda>a c. 10 * a + digit_val c) 0 s"

definition py_int :: "string \<Rightarrow> error + int" where
  "py_int s = (if s \<noteq> [] \<and> list_all is_digit s then Inr (dec s) else Inl ValueError)"

text \<open>\<^verbatim>\<open>int(x or d)\<close> for a group \<open>x\<close> that is a string or None: None and the empty
  string are falsy and give \<open>d\<close>.\<close>

definition int_or :: "int \<Rightarrow> string option \<Rightarrow> error + int" where
  "int_or d x =
     (case x of
        None \<Rightarrow> Inr d
      | Some s \<Rightarrow> if s = [] then Inr d else py_int s)"

fun map_err :: "('a \<Rightarrow> error + 'b) \<Rightarrow> 'a list \<Rightarrow> error + 'b list" where
  "map_err f [] = Inr []"
| "map_err f (x # xs) =
     (case f x of
        Inl e \<Rightarrow> Inl e
      | Inr y \<Rightarrow> (case map_err f xs of Inl e \<Rightarrow> Inl e | Inr ys \<Rightarrow> Inr (y # ys)))"

text \<open>\<^verbatim>\<open>'%s' % n\<close> and \<^verbatim>\<open>'%02d' % n\<close> for an integer, \<^verbatim>\<open>'%s' % x\<close> for a group.\<close>

fun str_nat :: "nat \<Rightarrow> string" where
  "str_nat n =
     (if n < 10 then [''0123456789'' ! n]
      else str_nat (n div 10) @ [''0123456789'' ! (n mod 10)])"

declare str_nat.simps [simp del]

definition str_int :: "int \<Rightarrow> string" where
  "str_int n = (if n < 0 then ''-'' @ str_nat (nat (- n)) else str_nat (nat n))"

definition fmt_02d :: "int \<Rightarrow> string" where
  "fmt_02d n =
     (if n < 0 then ''-'' @ str_nat (nat (- n))
      else replicate (2 - length (str_nat (nat n))) (CHR ''0'') @ str_nat (nat n))"

definition str_group :: "string option \<Rightarrow> string" where
  "str_group x = (case x of None \<Rightarrow> ''None'' | Some s \<Rightarrow> s)"

section \<open>The regular expressions\<close>

text \<open>
  The fragment of \<^verbatim>\<open>re\<close> the script uses, with the backtracking order of the library:
  \<open>run r s g\<close> lists, in the order in which the matcher tries them, every way \<open>r\<close> can
  match a prefix of \<open>s\<close>, as the text left over and the groups captured; the match
  reported is the first of the list.  \<^verbatim>\<open>x+\<close> is greedy (longest run first), and so is
  \<^verbatim>\<open>(?:r)?\<close> (with \<open>r\<close> first, without it last).
\<close>

definition cls_dot :: "char \<Rightarrow> bool" where
  "cls_dot c = (c \<noteq> CHR 0x0A)"

definition cls_alnum :: "char \<Rightarrow> bool" where
  "cls_alnum c = (is_digit c \<or> is_lower c)"

datatype rx =
    Lit string | One "char \<Rightarrow> bool" | Many1 "char \<Rightarrow> bool" | Group nat rx | Seq rx rx | Opt rx

fun many1 :: "(char \<Rightarrow> bool) \<Rightarrow> string \<Rightarrow> string list" where
  "many1 P [] = []"
| "many1 P (c # t) = (if P c then many1 P t @ [t] else [])"

type_synonym groups = "string option list"

fun run :: "rx \<Rightarrow> string \<Rightarrow> groups \<Rightarrow> (string \<times> groups) list" where
  "run (Lit cs) s g = (if take (length cs) s = cs then [(drop (length cs) s, g)] else [])"
| "run (One k) s g = (case s of [] \<Rightarrow> [] | c # t \<Rightarrow> if k c then [(t, g)] else [])"
| "run (Many1 k) s g = map (\<lambda>t. (t, g)) (many1 k s)"
| "run (Group i r) s g =
     map (\<lambda>(t, g'). (t, g'[i - 1 := Some (take (length s - length t) s)])) (run r s g)"
| "run (Seq a b) s g = concat (map (\<lambda>(t, g'). run b t g') (run a s g))"
| "run (Opt r) s g = run r s g @ [(s, g)]"

text \<open>\<^verbatim>\<open>re.match(r, s)\<close> for a pattern with \<open>n\<close> groups, as \<^verbatim>\<open>match.groups()\<close> or None.
  A \<^verbatim>\<open>search\<close> with a pattern that starts with \<^verbatim>\<open>^\<close> (no MULTILINE flag) is the same.\<close>

definition re_match :: "rx \<Rightarrow> nat \<Rightarrow> string \<Rightarrow> groups option" where
  "re_match r n s = (case run r s (replicate n None) of [] \<Rightarrow> None | (t, g) # _ \<Rightarrow> Some g)"

text \<open>\<^verbatim>\<open>^Version: \s+ (\d+)\.(\d+)\.(\d+) (?: -beta(\d+))?\<close> under \<^verbatim>\<open>re.VERBOSE\<close>, where
  the blanks of the pattern are not part of it.\<close>

definition re_ver :: rx where
  "re_ver =
     Seq (Lit ''Version:'') (Seq (Many1 is_space)
    (Seq (Group 1 (Many1 is_digit)) (Seq (Lit ''.'')
    (Seq (Group 2 (Many1 is_digit)) (Seq (Lit ''.'')
    (Seq (Group 3 (Many1 is_digit))
         (Opt (Seq (Lit ''-beta'') (Group 4 (Many1 is_digit))))))))))"

text \<open>\<^verbatim>\<open>(\d+).(\d+).(\d+) (?: -(\d+)-g([0-9a-z]+))?\<close> under \<^verbatim>\<open>re.VERBOSE\<close>: the two
  dots are not escaped.\<close>

definition re_git :: rx where
  "re_git =
     Seq (Group 1 (Many1 is_digit)) (Seq (One cls_dot)
    (Seq (Group 2 (Many1 is_digit)) (Seq (One cls_dot)
    (Seq (Group 3 (Many1 is_digit))
         (Opt (Seq (Lit ''-'') (Seq (Group 4 (Many1 is_digit))
              (Seq (Lit ''-g'') (Group 5 (Many1 cls_alnum))))))))))"

section \<open>The world the script runs in\<close>

text \<open>
  What version resolution reads from outside: the \<^verbatim>\<open>PKG-INFO\<close> file next to the script
  (None when \<^verbatim>\<open>exists(filename)\<close> is false, otherwise the lines that iterating over the
  open file yields, each with its line end), and what a command started with
  \<^verbatim>\<open>os.popen\<close> prints and what closing its pipe returns (None for exit status zero).
  \<open>spawned\<close> records the commands started so far, oldest first; starting a command
  is taken to succeed.

  The script opens and reads the file with no handler around it.  \<open>pkg_info_raises\<close>
  is None when the iteration over the file ends after the lines of \<open>pkg_info\<close>, and
  the exception otherwise: the one that the read raises after having yielded those
  lines (a UnicodeDecodeError, say), or the one that \<^verbatim>\<open>open\<close> itself raises, with no
  line yielded, when what \<^verbatim>\<open>exists\<close> has found is a directory or a file that may not
  be read (an IOError).
\<close>

record world =
  pkg_info :: "string list option"
  pkg_info_raises :: "error option"
  popen :: "string \<Rightarrow> string \<times> int option"
  spawned :: "string list"

definition getoutput :: "string \<Rightarrow> world \<Rightarrow> (int \<times> string) \<times> world" where
  "getoutput cmd w =
     (let pipe = popen w cmd;
          text = rstrip_nl (fst pipe);
          status = (case snd pipe of None \<Rightarrow> 0 | Some n \<Rightarrow> if n \<noteq> 0 then n else 0)
      in ((status, text), w\<lparr>spawned := spawned w @ [cmd]\<rparr>))"

section \<open>Version resolution\<close>

text \<open>A result is the pair \<open>(name, numbers)\<close>, either component of which can be None.
  \<^verbatim>\<open>not numbers\<close> holds for None and for the empty list.\<close>

type_synonym version = "string option \<times> int list option"

definition falsy :: "int list option \<Rightarrow> bool" where
  "falsy numbers = (case numbers of None \<Rightarrow> True | Some xs \<Rightarrow> xs = [])"

text \<open>The body of the loop of \<^verbatim>\<open>_get_version_pkginfo\<close> for a line that matched.\<close>

definition pkginfo_line :: "string \<Rightarrow> groups \<Rightarrow> error + version" where
  "pkginfo_line line gs =
     (case item (split_once (CHR '':'') line) 1 of
        Inl e \<Rightarrow> Inl e
      | Inr rest \<Rightarrow>
          (case map_err (int_or 0) (take 3 gs) of
             Inl e \<Rightarrow> Inl e
           | Inr numbers \<Rightarrow>
               (case item gs 3 of
                  Inl e \<Rightarrow> Inl e
                | Inr g4 \<Rightarrow>
                    (case int_or OFFICIAL_BUILD g4 of
                       Inl e \<Rightarrow> Inl e
                     | Inr build \<Rightarrow> Inr (Some (strip rest), Some (numbers @ [build]))))))"

text \<open>The loop over the lines of the open file: it returns at the first line that
  matches; when no line is left, the iteration ends and the function goes on to
  \<^verbatim>\<open>return None, None\<close>, or the read raises.\<close>

fun pkginfo_lines :: "error option \<Rightarrow> string list \<Rightarrow> error + version" where
  "pkginfo_lines raises [] = (case raises of None \<Rightarrow> Inr (None, None) | Some e \<Rightarrow> Inl e)"
| "pkginfo_lines raises (line # rest) =
     (case re_match re_ver 4 line of
        None \<Rightarrow> pkginfo_lines raises rest
      | Some gs \<Rightarrow> pkginfo_line line gs)"

definition get_version_pkginfo :: "world \<Rightarrow> error + version" where
  "get_version_pkginfo w =
     (case pkg_info w of
        None \<Rightarrow> Inr (None, None)
      | Some lines \<Rightarrow> pkginfo_lines (pkg_info_raises w) lines)"

text \<open>\<^verbatim>\<open>'%s.%s.%s-[IOPro]' % tuple(groups[:3])\<close> and
  \<^verbatim>\<open>'%s.%s.%s-beta%02d-[IOPRO]' % tuple(numbers)\<close>: a tuple of the wrong length is a
  TypeError.\<close>

definition fmt_official :: "groups \<Rightarrow> error + string" where
  "fmt_official args =
     (case args of
        [a, b, c] \<Rightarrow> Inr (str_group a @ ''.'' @ str_group b @ ''.'' @ str_group c @ ''-[IOPro]'')
      | _ \<Rightarrow> Inl TypeError)"

definition fmt_beta :: "int list \<Rightarrow> error + string" where
  "fmt_beta args =
     (case args of
        [a, b, c, d] \<Rightarrow>
          Inr (str_int a @ ''.'' @ str_int b @ ''.'' @ str_int c @ ''-beta'' @ fmt_02d d @ ''-[IOPRO]'')
      | _ \<Rightarrow> Inl TypeError)"

text \<open>\<^verbatim>\<open>numbers[-2] += 1\<close>.\<close>

definition incr_micro :: "int list \<Rightarrow> error + int list" where
  "incr_micro numbers =
     (case item numbers (- 2) of
        Inl e \<Rightarrow> Inl e
      | Inr v \<Rightarrow> Inr (numbers[length numbers - 2 := v + 1]))"

text \<open>Lines 229 to 238 of the script: from the groups of the match to the name (before
  the branch prefix) and the numbers.\<close>

definition git_name_numbers :: "groups \<Rightarrow> error + string \<times> int list" where
  "git_name_numbers gs =
     (case map_err (int_or OFFICIAL_BUILD) (take 4 gs) of
        Inl e \<Rightarrow> Inl e
      | Inr numbers \<Rightarrow>
          (case item numbers (- 1) of
             Inl e \<Rightarrow> Inl e
           | Inr build \<Rightarrow>
               if build = OFFICIAL_BUILD then
                 (case fmt_official (take 3 gs) of
                    Inl e \<Rightarrow> Inl e
                  | Inr name \<Rightarrow> Inr (name, numbers))
               else
                 (case incr_micro numbers of
                    Inl e \<Rightarrow> Inl e
                  | Inr numbers' \<Rightarrow>
                      (case fmt_beta numbers' of
                         Inl e \<Rightarrow> Inl e
                       | Inr name \<Rightarrow>
                           (case item gs (- 1) of
                              Inl e \<Rightarrow> Inl e
                            | Inr h \<Rightarrow> Inr (name @ ''-['' @ str_group h @ '']'', numbers'))))))"

definition get_version_git :: "world \<Rightarrow> (error + version) \<times> world" where
  "get_version_git w =
     (let ((n, result), w1) = getoutput ''git describe --tag'' w in
      if n \<noteq> 0 then (Inr (None, None), w1)
      else
        (case re_match re_git 5 result of
           None \<Rightarrow> (Inr (None, None), w1)
         | Some gs \<Rightarrow>
             (case git_name_numbers gs of
                Inl e \<Rightarrow> (Inl e, w1)
              | Inr (name, numbers) \<Rightarrow>
                  (let ((n', branch_name), w2) = getoutput ''git symbolic-ref --short HEAD'' w1 in
                   if n' \<noteq> 0 \<and> branch_name \<noteq> ''master''
                   then (Inr (Some (branch_name @ ''-'' @ name), Some numbers), w2)
                   else (Inr (Some name, Some numbers), w2)))))"

definition get_version :: "world \<Rightarrow> (error + version) \<times> world" where
  "get_version w =
     (case get_version_pkginfo w of
        Inl e \<Rightarrow> (Inl e, w)
      | Inr (name, numbers) \<Rightarrow>
          (case (if falsy numbers then get_version_git w else (Inr (name, numbers), w)) of
             (Inl e, w1) \<Rightarrow> (Inl e, w1)
           | (Inr (name1, numbers1), w1) \<Rightarrow>
               if falsy numbers1
               then (Inr (Some ''3.0.0-unsupported'', Some [3, 0, 0, 0]), w1)
               else (Inr (name1, numbers1), w1)))"

section \<open>Compiler settings\<close>








definition startswith :: "string \<Rightarrow> string \<Rightarrow> bool" where
  "startswith s p = (take (length p) s = p)"

definition endswith :: "string \<Rightarrow> string \<Rightarrow> bool" where
  "endswith s p = (length p \<le> length s \<and> drop (length s - length p) s = p)"




section \<open>Locating the built module\<close>

text \<open>
  A directory is the list of its subdirectories, in the order \<^verbatim>\<open>os.listdir\<close> gives them,
  and the names of its other entries.  \<^verbatim>\<open>os.walk(top)\<close>, top down, yields a directory
  before the directories below it; a caller prunes the walk only by changing the list
  \<open>dirs\<close> it is handed in place.
\<close>

datatype tree = Dir "(string \<times> tree) list" "string list"

definition path_join :: "string \<Rightarrow> string \<Rightarrow> string" where
  "path_join a b =
     (if startswith b ''/'' then b
      else if a = [] \<or> endswith a ''/'' then a @ b
      else a @ ''/'' @ b)"

fun walk :: "string \<Rightarrow> tree \<Rightarrow> (string \<times> string list \<times> string list) list" where
  "walk top_dir (Dir subs files) =
     (top_dir, map fst subs, files) # concat (map (\<lambda>p. walk (path_join top_dir (fst p)) (snd p)) subs)"

text \<open>
  What \<^verbatim>\<open>add_to_path\<close> reads: \<^verbatim>\<open>imp.get_suffixes()\<close> (suffix, mode, kind),
  \<^verbatim>\<open>sys.version_info[0]\<close> and \<^verbatim>\<open>[1]\<close>, the directory of the script and the tree at
  \<^verbatim>\<open>build\<close> below it (None when there is no such directory: the walk is empty then).
\<close>

record interp =
  suffixes :: "(string \<times> string \<times> int) list"
  version_info :: "int \<times> int"
  script_dir :: string
  build_tree :: "tree option"

definition C_EXTENSION :: int where
  "C_EXTENSION = 3"

text \<open>The loop over the walk.  The filtered list is bound to the local name \<open>dirs\<close>
  and not used again; the list the walk holds is not changed.\<close>

fun search_walk :: "string list \<Rightarrow> string \<Rightarrow> (string \<times> string list \<times> string list) list \<Rightarrow>
    string option" where
  "search_walk library_names dir_suffix [] = None"
| "search_walk library_names dir_suffix ((top_dir, dirs, files) # rest) =
     (let dirs' = filter (\<lambda>d. endswith d dir_suffix) dirs
      in if list_ex (\<lambda>name. name \<in> set files) library_names then Some top_dir
         else search_walk library_names dir_suffix rest)"

definition add_to_path :: "interp \<Rightarrow> string list \<Rightarrow> error + string list" where
  "add_to_path i sys_path =
     (let library_exts = map fst (filter (\<lambda>t. snd (snd t) = C_EXTENSION) (suffixes i));
          library_names = map (\<lambda>ext. ''pyodbcconf'' @ ext) library_exts;
          dir_suffix = ''-'' @ str_int (fst (version_info i)) @ ''.'' @ str_int (snd (version_info i));
          build = path_join (script_dir i) ''build''
      in case search_walk library_names dir_suffix
                (case build_tree i of None \<Rightarrow> [] | Some t \<Rightarrow> walk build t) of
           None \<Rightarrow> Inl (SystemExit ''Did not find pyodbcconf'')
         | Some top_dir \<Rightarrow> Inr (top_dir # sys_path))"

section \<open>The patterns as the specification words them\<close>

text \<open>
  The specification gives the manifest pattern as
  \<^verbatim>\<open>^Version:\s*(\d+)\.(\d+)\.(\d+)(?:-beta(\d+))?\<close> and the describe pattern as
  \<^verbatim>\<open>^(\d+)\.(\d+)\.(\d+)(?:-(\d+)-g([0-9a-f]+))?\<close>.  These two definitions follow
  its words, not the script, and are there to be compared with \<open>re_ver\<close> and
  \<open>re_git\<close>.
\<close>

definition is_hex :: "char \<Rightarrow> bool" where
  "is_hex c = (c \<in> set ''0123456789abcdef'')"

definition re_ver_spec :: rx where
  "re_ver_spec =
     Seq (Lit ''Version:'') (Seq (Opt (Many1 is_space))
    (Seq (Group 1 (Many1 is_digit)) (Seq (Lit ''.'')
    (Seq (Group 2 (Many1 is_digit)) (Seq (Lit ''.'')
    (Seq (Group 3 (Many1 is_digit))
         (Opt (Seq (Lit ''-beta'') (Group 4 (Many1 is_digit))))))))))"

definition re_git_spec :: rx where
  "re_git_spec =
     Seq (Group 1 (Many1 is_digit)) (Seq (Lit ''.'')
    (Seq (Group 2 (Many1 is_digit)) (Seq (Lit ''.'')
    (Seq (Group 3 (Many1 is_digit))
         (Opt (Seq (Lit ''-'') (Seq (Group 4 (Many1 is_digit))
              (Seq (Lit ''-g'') (Group 5 (Many1 is_hex))))))))))"

section \<open>Worlds and shapes used in the statements\<close>

text \<open>A world with the given manifest, read without an exception, in which the describe
  command and the branch query answer as given, every other command fails, and nothing
  has been spawned yet.\<close>

definition mk_world ::
    "string list option \<Rightarrow> string \<times> int option \<Rightarrow> string \<times> int option \<Rightarrow> world" where
  "mk_world manifest describe branch =
     \<lparr>pkg_info = manifest,
      pkg_info_raises = None,
      popen = (\<lambda>cmd. if cmd = ''git describe --tag'' then describe
                     else if cmd = ''git symbolic-ref --short HEAD'' then branch
                     else ([], Some 127)),
      spawned = []\<rparr>"

text \<open>A non-empty run of decimal digits; a text that does not go on with a character
  of class \<open>P\<close>.\<close>

definition digits :: "string \<Rightarrow> bool" where
  "digits s = (s \<noteq> [] \<and> list_all is_digit s)"

definition stops :: "(char \<Rightarrow> bool) \<Rightarrow> string \<Rightarrow> bool" where
  "stops P s = (case s of [] \<Rightarrow> True | c # _ \<Rightarrow> \<not> P c)"

text \<open>The match the backtracking search reports: the first of the list.\<close>

definition first :: "rx \<Rightarrow> string \<Rightarrow> groups \<Rightarrow> (string \<times> groups) option" where
  "first r s g = (case run r s g of [] \<Rightarrow> None | x # _ \<Rightarrow> Some x)"

text \<open>A text that goes on with \<^verbatim>\<open>-beta\<close> and a digit.\<close>

definition beta_ahead :: "string \<Rightarrow> bool" where
  "beta_ahead s = (take 5 s = ''-beta'' \<and> \<not> stops is_digit (drop 5 s))"

text \<open>
  Where a resolved version comes from.  \<open>manifest_line\<close> is the first line of the
  manifest that the manifest pattern matches, \<open>describe_groups\<close> the groups of the
  describe output when the command succeeds and the describe pattern matches, and
  \<open>decisive_groups\<close> the groups of the match that decides the version: the
  manifest's when there is one, the describe output's otherwise.  Group 4, at index 3,
  is the counter: the \<open>N\<close> of \<^verbatim>\<open>-betaN\<close> or of \<^verbatim>\<open>-N-gHASH\<close>.  \<open>build_of\<close> reads
  a counter group, \<open>build_number\<close> the counter of the deciding match.
\<close>

definition build_of :: "string option \<Rightarrow> int" where
  "build_of x = (case x of None \<Rightarrow> OFFICIAL_BUILD | Some d \<Rightarrow> dec d)"


definition manifest_line :: "world \<Rightarrow> string option" where
  "manifest_line w =
     List.find (\<lambda>l. re_match re_ver 4 l \<noteq> None) (case pkg_info w of None \<Rightarrow> [] | Some ls \<Rightarrow> ls)"



section \<open>Evaluation\<close>

lemmas str_defs = is_digit_def is_lower_def is_space_def rstrip_nl_def rstrip_with_def strip_def
  split_once_def item_def py_int_def dec_def digit_val_def int_or_def str_nat.simps str_int_def
  fmt_02d_def str_group_def cls_dot_def cls_alnum_def

lemmas version_defs = re_match_def re_git_def re_ver_def get_version_def get_version_git_def
  get_version_pkginfo_def getoutput_def falsy_def pkginfo_line_def fmt_official_def fmt_beta_def
  incr_micro_def git_name_numbers_def OFFICIAL_BUILD_def mk_world_def Let_def eval_nat_numeral

section \<open>What a match looks like\<close>

text \<open>Every entry of \<open>run\<close> splits the text into what was consumed and what is left;
  for the two patterns of the script this fixes the shape of the groups.\<close>

lemma many1_mem: "t \<in> set (many1 P s) \<Longrightarrow> \<exists>p. s = p @ t \<and> p \<noteq> [] \<and> list_all P p"
proof (induction s)
  case Nil
  then show ?case by simp
next
  case (Cons c s)
  show ?case
  proof (cases "P c")
    case False
    with Cons.prems show ?thesis by simp
  next
    case True
    with Cons.prems have "t \<in> set (many1 P s) \<or> t = s" by auto
    then show ?thesis
    proof
      assume "t \<in> set (many1 P s)"
      then obtain p where "s = p @ t" "list_all P p" using Cons.IH by blast
      with True have "c # s = (c # p) @ t \<and> c # p \<noteq> [] \<and> list_all P (c # p)" by simp
      then show ?thesis by blast
    next
      assume "t = s"
      with True have "c # s = [c] @ t \<and> [c] \<noteq> [] \<and> list_all P [c]" by simp
      then show ?thesis by blast
    qed
  qed
qed

lemma mem_Lit: "(t, g') \<in> set (run (Lit cs) s g) \<longleftrightarrow> s = cs @ t \<and> g' = g"
proof (cases "take (length cs) s = cs")
  case True
  have "take (length cs) s @ drop (length cs) s = s" by (rule append_take_drop_id)
  with True have s: "s = cs @ drop (length cs) s" by simp
  have "s = cs @ t \<longleftrightarrow> t = drop (length cs) s"
  proof
    assume "s = cs @ t" then show "t = drop (length cs) s" by simp
  next
    assume "t = drop (length cs) s" with s show "s = cs @ t" by simp
  qed
  moreover from True have "(t, g') \<in> set (run (Lit cs) s g) \<longleftrightarrow> t = drop (length cs) s \<and> g' = g"
    by simp
  ultimately show ?thesis by simp
next
  case False
  then have "s \<noteq> cs @ t" by auto
  with False show ?thesis by simp
qed


lemma mem_Seq:
  "(t, g') \<in> set (run (Seq a b) s g) \<longleftrightarrow>
     (\<exists>t1 g1. (t1, g1) \<in> set (run a s g) \<and> (t, g') \<in> set (run b t1 g1))"
  by auto

lemma mem_Opt: "(t, g') \<in> set (run (Opt r) s g) \<longleftrightarrow> (t, g') \<in> set (run r s g) \<or> (t = s \<and> g' = g)"
  by auto

lemma mem_Many1:
  "(t, g') \<in> set (run (Many1 P) s g) \<Longrightarrow> (\<exists>p. s = p @ t \<and> p \<noteq> [] \<and> list_all P p) \<and> g' = g"
proof -
  assume "(t, g') \<in> set (run (Many1 P) s g)"
  then have "t \<in> set (many1 P s)" and "g' = g" by auto
  with many1_mem show ?thesis by simp
qed

lemma mem_Group_Many1:
  "(t, g') \<in> set (run (Group i (Many1 P)) s g) \<Longrightarrow>
     \<exists>p. s = p @ t \<and> p \<noteq> [] \<and> list_all P p \<and> g' = g[i - 1 := Some p]"
proof -
  assume "(t, g') \<in> set (run (Group i (Many1 P)) s g)"
  then have t: "t \<in> set (many1 P s)" and g': "g' = g[i - 1 := Some (take (length s - length t) s)]"
    by auto
  from many1_mem [OF t] obtain p where p: "s = p @ t" "p \<noteq> []" "list_all P p" by blast
  then have "take (length s - length t) s = p" by simp
  with g' have "g' = g[i - 1 := Some p]" by (simp only:)
  with p show ?thesis by (intro exI [of _ p]) (simp only: simp_thms)
qed

lemma re_match_mem: "re_match r n s = Some gs \<Longrightarrow> \<exists>t. (t, gs) \<in> set (run r s (replicate n None))"
proof -
  assume a: "re_match r n s = Some gs"
  show ?thesis
  proof (cases "run r s (replicate n None)")
    case Nil
    with a show ?thesis by (simp add: re_match_def)
  next
    case (Cons x xs)
    with a have "x = (fst x, gs)" by (cases x) (simp add: re_match_def)
    with Cons have "(fst x, gs) \<in> set (run r s (replicate n None))" by simp
    then show ?thesis ..
  qed
qed

lemma no_groups_4: "replicate 4 None = [None, None, None, None]"
  by (simp add: eval_nat_numeral)

lemma no_groups_5: "replicate 5 None = [None, None, None, None, None]"
  by (simp add: eval_nat_numeral)

lemma SeqE:
  assumes "(t, g') \<in> set (run (Seq a b) s g)"
  obtains t1 g1 where "(t1, g1) \<in> set (run a s g)" and "(t, g') \<in> set (run b t1 g1)"
  using assms mem_Seq by blast

lemma re_ver_shape:
  assumes "re_match re_ver 4 line = Some gs"
  obtains ws a b c x tail where
    "line = ''Version:'' @ ws @ a @ ''.'' @ b @ ''.'' @ c @ tail"
    "ws \<noteq> []" "list_all is_space ws" "digits a" "digits b" "digits c"
    "gs = [Some a, Some b, Some c, x]" "x = None \<or> (\<exists>d. digits d \<and> x = Some d)"
proof -
  let ?g0 = "[None, None, None, None] :: groups"
  let ?r7 = "Opt (Seq (Lit ''-beta'') (Group 4 (Many1 is_digit)))"
  let ?r6 = "Seq (Group 3 (Many1 is_digit)) ?r7"
  let ?r5 = "Seq (Lit ''.'') ?r6"
  let ?r4 = "Seq (Group 2 (Many1 is_digit)) ?r5"
  let ?r3 = "Seq (Lit ''.'') ?r4"
  let ?r2 = "Seq (Group 1 (Many1 is_digit)) ?r3"
  let ?r1 = "Seq (Many1 is_space) ?r2"
  from re_match_mem [OF assms] obtain t where "(t, gs) \<in> set (run re_ver line ?g0)"
    by (auto simp: no_groups_4)
  then have m0: "(t, gs) \<in> set (run (Seq (Lit ''Version:'') ?r1) line ?g0)"
    by (simp only: re_ver_def)
  from m0 obtain t1 g1 where 1: "(t1, g1) \<in> set (run (Lit ''Version:'') line ?g0)"
    and m1: "(t, gs) \<in> set (run ?r1 t1 g1)" by (rule SeqE)
  from m1 obtain t2 g2 where 2: "(t2, g2) \<in> set (run (Many1 is_space) t1 g1)"
    and m2: "(t, gs) \<in> set (run ?r2 t2 g2)" by (rule SeqE)
  from m2 obtain t3 g3 where 3: "(t3, g3) \<in> set (run (Group 1 (Many1 is_digit)) t2 g2)"
    and m3: "(t, gs) \<in> set (run ?r3 t3 g3)" by (rule SeqE)
  from m3 obtain t4 g4 where 4: "(t4, g4) \<in> set (run (Lit ''.'') t3 g3)"
    and m4: "(t, gs) \<in> set (run ?r4 t4 g4)" by (rule SeqE)
  from m4 obtain t5 g5 where 5: "(t5, g5) \<in> set (run (Group 2 (Many1 is_digit)) t4 g4)"
    and m5: "(t, gs) \<in> set (run ?r5 t5 g5)" by (rule SeqE)
  from m5 obtain t6 g6 where 6: "(t6, g6) \<in> set (run (Lit ''.'') t5 g5)"
    and m6: "(t, gs) \<in> set (run ?r6 t6 g6)" by (rule SeqE)
  from m6 obtain t7 g7 where 7: "(t7, g7) \<in> set (run (Group 3 (Many1 is_digit)) t6 g6)"
    and m7: "(t, gs) \<in> set (run ?r7 t7 g7)" by (rule SeqE)
  from 1 have l1: "line = ''Version:'' @ t1" and g1: "g1 = ?g0" by (simp_all only: mem_Lit)
  from mem_Many1 [OF 2] obtain ws where l2: "t1 = ws @ t2" "ws \<noteq> []" "list_all is_space ws"
    and g2: "g2 = g1" by blast
  from mem_Group_Many1 [OF 3] obtain a where l3: "t2 = a @ t3" "a \<noteq> []" "list_all is_digit a"
    and g3: "g3 = g2[0 := Some a]" by auto
  from 4 have l4: "t3 = ''.'' @ t4" and g4: "g4 = g3" by (simp_all only: mem_Lit)
  from mem_Group_Many1 [OF 5] obtain b where l5: "t4 = b @ t5" "b \<noteq> []" "list_all is_digit b"
    and g5: "g5 = g4[1 := Some b]" by auto
  from 6 have l6: "t5 = ''.'' @ t6" and g6: "g6 = g5" by (simp_all only: mem_Lit)
  from mem_Group_Many1 [OF 7] obtain c where l7: "t6 = c @ t7" "c \<noteq> []" "list_all is_digit c"
    and g7: "g7 = g6[2 := Some c]" by auto
  have g7': "g7 = [Some a, Some b, Some c, None]"
    by (simp add: g7 g6 g5 g4 g3 g2 g1)
  have line: "line = ''Version:'' @ ws @ a @ ''.'' @ b @ ''.'' @ c @ t7"
    by (simp add: l1 l2 l3 l4 l5 l6 l7)
  from m7 have "(t, gs) \<in> set (run (Seq (Lit ''-beta'') (Group 4 (Many1 is_digit))) t7 g7) \<or> gs = g7"
    by (simp only: mem_Opt) blast
  then have x: "\<exists>x. gs = [Some a, Some b, Some c, x] \<and> (x = None \<or> (\<exists>d. digits d \<and> x = Some d))"
  proof
    assume "gs = g7"
    then show ?thesis by (simp add: g7')
  next
    assume "(t, gs) \<in> set (run (Seq (Lit ''-beta'') (Group 4 (Many1 is_digit))) t7 g7)"
    then obtain t8 g8 where 8: "(t8, g8) \<in> set (run (Lit ''-beta'') t7 g7)"
      and 9: "(t, gs) \<in> set (run (Group 4 (Many1 is_digit)) t8 g8)" by (rule SeqE)
    from 8 have g8: "g8 = g7" by (simp only: mem_Lit)
    from mem_Group_Many1 [OF 9] obtain d where "d \<noteq> []" "list_all is_digit d" "gs = g8[3 := Some d]"
      by auto
    then show ?thesis by (simp add: g8 g7' digits_def)
  qed
  then obtain x where "gs = [Some a, Some b, Some c, x]" "x = None \<or> (\<exists>d. digits d \<and> x = Some d)"
    by blast
  with line l2 l3 l5 l7 show ?thesis by (intro that [of ws a b c t7 x]) (simp_all add: digits_def)
qed

lemma int_or_digits: "digits d \<Longrightarrow> int_or k (Some d) = Inr (dec d)"
  by (simp add: int_or_def py_int_def digits_def)

lemma int_or_None: "int_or k None = Inr k"
  by (simp add: int_or_def)

lemma int_or_build:
  "x = None \<or> (\<exists>d. digits d \<and> x = Some d) \<Longrightarrow> int_or OFFICIAL_BUILD x = Inr (build_of x)"
  by (auto simp: build_of_def int_or_digits int_or_None)

lemma split_once_Version: "split_once (CHR '':'') (''Version:'' @ rest) = [''Version'', rest]"
  by (simp add: split_once_def)

lemma pkginfo_line_shape:
  assumes "digits a" "digits b" "digits c" "x = None \<or> (\<exists>d. digits d \<and> x = Some d)"
  shows "pkginfo_line (''Version:'' @ rest) [Some a, Some b, Some c, x] =
           Inr (Some (strip rest), Some [dec a, dec b, dec c, build_of x])"
proof -
  have 1: "item (split_once (CHR '':'') (''Version:'' @ rest)) 1 = Inr rest"
    by (simp only: split_once_Version) (simp add: item_def)
  have 2: "map_err (int_or 0) (take 3 [Some a, Some b, Some c, x]) = Inr [dec a, dec b, dec c]"
    using assms by (simp add: int_or_digits eval_nat_numeral)
  have 3: "item [Some a, Some b, Some c, x] 3 = Inr x"
    by (simp add: item_def eval_nat_numeral)
  have 4: "int_or OFFICIAL_BUILD x = Inr (build_of x)"
    using assms(4) by (rule int_or_build)
  show ?thesis
    unfolding pkginfo_line_def by (simp only: 1 2 3 4 sum.case) simp
qed

lemma pkginfo_line_match:
  assumes "re_match re_ver 4 line = Some gs"
  shows "\<exists>name a b c. pkginfo_line line gs = Inr (Some name, Some [a, b, c, build_of (gs ! 3)])"
proof (rule re_ver_shape [OF assms])
  fix ws a b c x tail
  assume line: "line = ''Version:'' @ ws @ a @ ''.'' @ b @ ''.'' @ c @ tail"
    and d: "digits a" "digits b" "digits c"
    and gs: "gs = [Some a, Some b, Some c, x]"
    and x: "x = None \<or> (\<exists>d. digits d \<and> x = Some d)"
  have "gs ! 3 = x" by (simp add: gs eval_nat_numeral)
  then have "pkginfo_line line gs =
      Inr (Some (strip (ws @ a @ ''.'' @ b @ ''.'' @ c @ tail)), Some [dec a, dec b, dec c, build_of (gs ! 3)])"
    using pkginfo_line_shape [OF d x, of "ws @ a @ ''.'' @ b @ ''.'' @ c @ tail"]
    by (simp only: line gs)
  then show ?thesis by (intro exI)
qed


lemma git_name_numbers_shape:
  assumes "digits a" "digits b" "digits c" "x = None \<or> (\<exists>d. digits d \<and> x = Some d)"
  shows "git_name_numbers [Some a, Some b, Some c, x, y] =
           Inr (if build_of x = OFFICIAL_BUILD
                then (a @ ''.'' @ b @ ''.'' @ c @ ''-[IOPro]'', [dec a, dec b, dec c, build_of x])
                else (str_int (dec a) @ ''.'' @ str_int (dec b) @ ''.'' @ str_int (dec c + 1) @
                      ''-beta'' @ fmt_02d (build_of x) @ ''-[IOPRO]'' @ ''-['' @ str_group y @ '']'',
                      [dec a, dec b, dec c + 1, build_of x]))"
proof -
  have 1: "map_err (int_or OFFICIAL_BUILD) (take 4 [Some a, Some b, Some c, x, y]) =
             Inr [dec a, dec b, dec c, build_of x]"
    using assms by (simp add: int_or_digits int_or_build eval_nat_numeral)
  have 2: "item [dec a, dec b, dec c, build_of x] (- 1) = Inr (build_of x)"
    by (simp add: item_def eval_nat_numeral)
  have 3: "fmt_official (take 3 [Some a, Some b, Some c, x, y]) =
             Inr (a @ ''.'' @ b @ ''.'' @ c @ ''-[IOPro]'')"
    by (simp add: fmt_official_def str_group_def eval_nat_numeral)
  have 4: "incr_micro [dec a, dec b, dec c, build_of x] = Inr [dec a, dec b, dec c + 1, build_of x]"
    by (simp add: incr_micro_def item_def eval_nat_numeral)
  have 5: "fmt_beta [dec a, dec b, dec c + 1, build_of x] =
             Inr (str_int (dec a) @ ''.'' @ str_int (dec b) @ ''.'' @ str_int (dec c + 1) @
                  ''-beta'' @ fmt_02d (build_of x) @ ''-[IOPRO]'')"
    by (simp add: fmt_beta_def)
  have 6: "item [Some a, Some b, Some c, x, y] (- 1) = Inr y"
    by (simp add: item_def eval_nat_numeral)
  show ?thesis
    unfolding git_name_numbers_def by (simp only: 1 2 3 4 5 6 sum.case if_distrib split: if_split) simp
qed

lemma pkginfo_lines_find:
  "pkginfo_lines raises ls =
     (case List.find (\<lambda>l. re_match re_ver 4 l \<noteq> None) ls of
        None \<Rightarrow> (case raises of None \<Rightarrow> Inr (None, None) | Some e \<Rightarrow> Inl e)
      | Some l \<Rightarrow> (case re_match re_ver 4 l of None \<Rightarrow> Inr (None, None) | Some gs \<Rightarrow> pkginfo_line l gs))"
  by (induction ls) (auto split: option.splits)

lemma get_version_pkginfo_find:
  "get_version_pkginfo w =
     (case manifest_line w of
        None \<Rightarrow>
          (case pkg_info w of
             None \<Rightarrow> Inr (None, None)
           | Some ls \<Rightarrow> (case pkg_info_raises w of None \<Rightarrow> Inr (None, None) | Some e \<Rightarrow> Inl e))
      | Some l \<Rightarrow> (case re_match re_ver 4 l of None \<Rightarrow> Inr (None, None) | Some gs \<Rightarrow> pkginfo_line l gs))"
  by (cases "pkg_info w")
     (simp_all add: get_version_pkginfo_def manifest_line_def pkginfo_lines_find split: option.split)

lemma manifest_line_matches:
  assumes "manifest_line w = Some l"
  obtains gs where "re_match re_ver 4 l = Some gs"
proof -
  from assms have "re_match re_ver 4 l \<noteq> None"
    unfolding manifest_line_def by (auto simp: find_Some_iff)
  then show ?thesis using that by blast
qed


lemma get_version_manifest:
  assumes "manifest_line w = Some l"
  shows "get_version w = (get_version_pkginfo w, w) \<and>
         (\<exists>name a b c gs. re_match re_ver 4 l = Some gs \<and>
            get_version_pkginfo w = Inr (Some name, Some [a, b, c, build_of (gs ! 3)]))"
proof -
  from manifest_line_matches [OF assms] obtain gs where gs: "re_match re_ver 4 l = Some gs" .
  from pkginfo_line_match [OF gs] obtain name a b c where
    pl: "pkginfo_line l gs = Inr (Some name, Some [a, b, c, build_of (gs ! 3)])" by blast
  from assms gs pl have p: "get_version_pkginfo w = Inr (Some name, Some [a, b, c, build_of (gs ! 3)])"
    by (simp add: get_version_pkginfo_find)
  then have "get_version w = (get_version_pkginfo w, w)"
    by (simp add: get_version_def falsy_def)
  with gs p show ?thesis by blast
qed




section \<open>The match that is reported\<close>

text \<open>On a text of the expected shape the greedy choices all succeed, so the first entry
  of \<open>run\<close> is the one that takes every run of digits whole.\<close>

lemma many1_stops: "stops P s \<Longrightarrow> many1 P s = []"
  by (cases s) (simp_all add: stops_def)

lemma many1_greedy:
  "list_all P xs \<Longrightarrow> xs \<noteq> [] \<Longrightarrow> stops P rest \<Longrightarrow> \<exists>more. many1 P (xs @ rest) = rest # more"
proof (induction xs)
  case Nil
  then show ?case by simp
next
  case (Cons x xs)
  show ?case
  proof (cases "xs = []")
    case True
    with Cons.prems show ?thesis by (simp add: many1_stops)
  next
    case False
    with Cons obtain more where "many1 P (xs @ rest) = rest # more" by auto
    with Cons.prems show ?thesis by simp
  qed
qed

lemma first_Lit: "first (Lit cs) (cs @ rest) g = Some (rest, g)"
  by (simp add: first_def)

lemma first_One: "k c \<Longrightarrow> first (One k) (c # t) g = Some (t, g)"
  by (simp add: first_def)

lemma first_Many1:
  assumes "list_all P xs" "xs \<noteq> []" "stops P rest"
  shows "first (Many1 P) (xs @ rest) g = Some (rest, g)"
proof -
  from many1_greedy [OF assms] obtain more where "many1 P (xs @ rest) = rest # more" ..
  then show ?thesis by (simp add: first_def)
qed

lemma first_Group_Many1:
  assumes "list_all P xs" "xs \<noteq> []" "stops P rest"
  shows "first (Group i (Many1 P)) (xs @ rest) g = Some (rest, g[i - 1 := Some xs])"
proof -
  from many1_greedy [OF assms] obtain more where "many1 P (xs @ rest) = rest # more" ..
  then show ?thesis by (simp add: first_def)
qed

lemma first_Seq:
  assumes "first a s g = Some (t, g')" "first b t g' = Some y"
  shows "first (Seq a b) s g = Some y"
proof -
  from assms(1) obtain xs where a: "run a s g = (t, g') # xs"
    by (cases "run a s g") (simp_all add: first_def)
  from assms(2) obtain ys where b: "run b t g' = y # ys"
    by (cases "run b t g'") (simp_all add: first_def)
  show ?thesis by (simp add: first_def a b)
qed

lemma first_Opt_Some: "first r s g = Some y \<Longrightarrow> first (Opt r) s g = Some y"
  by (cases "run r s g") (simp_all add: first_def)

lemma first_Opt_None: "run r s g = [] \<Longrightarrow> first (Opt r) s g = Some (s, g)"
  by (simp add: first_def)

lemma re_match_first: "first r s (replicate n None) = Some (t, gs) \<Longrightarrow> re_match r n s = Some gs"
  by (cases "run r s (replicate n None)") (simp_all add: first_def re_match_def)

lemma digit_not_space: "is_digit c \<Longrightarrow> \<not> is_space c"
  by (auto simp: is_digit_def is_space_def)

lemma stops_digits: "digits a \<Longrightarrow> stops is_space (a @ rest)"
  by (cases a) (simp_all add: digits_def stops_def digit_not_space)

lemma stops_dot: "stops is_digit (CHR ''.'' # rest)"
  by (simp add: stops_def is_digit_def)

lemma stops_dash: "stops is_digit (CHR ''-'' # rest)"
  by (simp add: stops_def is_digit_def)

lemma no_beta:
  assumes "\<not> beta_ahead tail"
  shows "run (Seq (Lit ''-beta'') (Group 4 (Many1 is_digit))) tail g = []"
proof (rule ccontr)
  assume "run (Seq (Lit ''-beta'') (Group 4 (Many1 is_digit))) tail g \<noteq> []"
  then have "hd (run (Seq (Lit ''-beta'') (Group 4 (Many1 is_digit))) tail g)
      \<in> set (run (Seq (Lit ''-beta'') (Group 4 (Many1 is_digit))) tail g)"
    by (rule list.set_sel(1))
  then obtain t g' where "(t, g') \<in> set (run (Seq (Lit ''-beta'') (Group 4 (Many1 is_digit))) tail g)"
    by (metis surj_pair)
  then obtain t1 g1 where 1: "(t1, g1) \<in> set (run (Lit ''-beta'') tail g)"
    and 2: "(t, g') \<in> set (run (Group 4 (Many1 is_digit)) t1 g1)" by (rule SeqE)
  from 1 have tail: "tail = ''-beta'' @ t1" by (simp only: mem_Lit)
  from mem_Group_Many1 [OF 2] obtain p where p: "t1 = p @ t" "p \<noteq> []" "list_all is_digit p" by blast
  then obtain d p' where "p = d # p'" by (cases p) auto
  with p have "\<not> stops is_digit t1" by (simp add: stops_def)
  with tail have "beta_ahead tail" by (simp add: beta_ahead_def)
  with assms show False ..
qed

lemma ver_prefix:
  assumes "ws \<noteq> []" "list_all is_space ws" "digits a" "digits b" "digits c" "stops is_digit tail"
    and "first (Opt (Seq (Lit ''-beta'') (Group 4 (Many1 is_digit)))) tail [Some a, Some b, Some c, None] = Some (t, gs)"
  shows "re_match re_ver 4 (''Version:'' @ ws @ a @ ''.'' @ b @ ''.'' @ c @ tail) = Some gs"
proof -
  let ?g0 = "[None, None, None, None] :: groups"
  have a: "list_all is_digit a" "a \<noteq> []" and b: "list_all is_digit b" "b \<noteq> []"
    and c: "list_all is_digit c" "c \<noteq> []"
    using assms(3-5) by (simp_all add: digits_def)
  have g3: "?g0[1 - 1 := Some a, 2 - 1 := Some b, 3 - 1 := Some c] = [Some a, Some b, Some c, None]"
    by (simp add: eval_nat_numeral)
  have 7: "first (Seq (Group 3 (Many1 is_digit)) (Opt (Seq (Lit ''-beta'') (Group 4 (Many1 is_digit)))))
             (c @ tail) (?g0[1 - 1 := Some a, 2 - 1 := Some b]) = Some (t, gs)"
    by (rule first_Seq [OF first_Group_Many1 [OF c assms(6)]]) (simp only: g3 assms(7))
  have 6: "first (Seq (Lit ''.'') (Seq (Group 3 (Many1 is_digit)) (Opt (Seq (Lit ''-beta'') (Group 4 (Many1 is_digit))))))
             (''.'' @ c @ tail) (?g0[1 - 1 := Some a, 2 - 1 := Some b]) = Some (t, gs)"
    by (rule first_Seq [OF first_Lit 7])
  have 5: "first (Seq (Group 2 (Many1 is_digit)) (Seq (Lit ''.'') (Seq (Group 3 (Many1 is_digit))
                (Opt (Seq (Lit ''-beta'') (Group 4 (Many1 is_digit)))))))
             (b @ ''.'' @ c @ tail) (?g0[1 - 1 := Some a]) = Some (t, gs)"
    by (rule first_Seq [OF first_Group_Many1 [OF b] 6]) (simp add: stops_dot)
  have 4: "first (Seq (Lit ''.'') (Seq (Group 2 (Many1 is_digit)) (Seq (Lit ''.'') (Seq (Group 3 (Many1 is_digit))
                (Opt (Seq (Lit ''-beta'') (Group 4 (Many1 is_digit))))))))
             (''.'' @ b @ ''.'' @ c @ tail) (?g0[1 - 1 := Some a]) = Some (t, gs)"
    by (rule first_Seq [OF first_Lit 5])
  have 3: "first (Seq (Group 1 (Many1 is_digit)) (Seq (Lit ''.'') (Seq (Group 2 (Many1 is_digit)) (Seq (Lit ''.'')
                (Seq (Group 3 (Many1 is_digit)) (Opt (Seq (Lit ''-beta'') (Group 4 (Many1 is_digit)))))))))
             (a @ ''.'' @ b @ ''.'' @ c @ tail) ?g0 = Some (t, gs)"
    by (rule first_Seq [OF first_Group_Many1 [OF a] 4]) (simp add: stops_dot)
  have 2: "first (Seq (Many1 is_space) (Seq (Group 1 (Many1 is_digit)) (Seq (Lit ''.'') (Seq (Group 2 (Many1 is_digit))
                (Seq (Lit ''.'') (Seq (Group 3 (Many1 is_digit)) (Opt (Seq (Lit ''-beta'') (Group 4 (Many1 is_digit))))))))))
             (ws @ a @ ''.'' @ b @ ''.'' @ c @ tail) ?g0 = Some (t, gs)"
    by (rule first_Seq [OF first_Many1 [OF assms(2) assms(1) stops_digits [OF assms(3)]] 3])
  have 1: "first re_ver (''Version:'' @ ws @ a @ ''.'' @ b @ ''.'' @ c @ tail) ?g0 = Some (t, gs)"
    unfolding re_ver_def by (rule first_Seq [OF first_Lit 2])
  show ?thesis
    by (rule re_match_first [of _ _ _ t]) (simp only: no_groups_4 1)
qed

lemma ver_match_official:
  assumes "ws \<noteq> []" "list_all is_space ws" "digits a" "digits b" "digits c"
    and "stops is_digit tail" "\<not> beta_ahead tail"
  shows "re_match re_ver 4 (''Version:'' @ ws @ a @ ''.'' @ b @ ''.'' @ c @ tail) =
           Some [Some a, Some b, Some c, None]"
  by (rule ver_prefix [OF assms(1-6) first_Opt_None [OF no_beta [OF assms(7)]]])

lemma ver_match_beta:
  assumes "ws \<noteq> []" "list_all is_space ws" "digits a" "digits b" "digits c"
    and "digits d" "stops is_digit tail'"
  shows "re_match re_ver 4 (''Version:'' @ ws @ a @ ''.'' @ b @ ''.'' @ c @ ''-beta'' @ d @ tail') =
           Some [Some a, Some b, Some c, Some d]"
proof -
  have d: "list_all is_digit d" "d \<noteq> []" using assms(6) by (simp_all add: digits_def)
  have g: "[Some a, Some b, Some c, None][4 - 1 := Some d] = [Some a, Some b, Some c, Some d]"
    by (simp add: eval_nat_numeral)
  have "first (Seq (Lit ''-beta'') (Group 4 (Many1 is_digit))) (''-beta'' @ d @ tail')
          [Some a, Some b, Some c, None] = Some (tail', [Some a, Some b, Some c, None][4 - 1 := Some d])"
    by (rule first_Seq [OF first_Lit first_Group_Many1 [OF d assms(7)]])
  then have o: "first (Opt (Seq (Lit ''-beta'') (Group 4 (Many1 is_digit)))) (''-beta'' @ d @ tail')
          [Some a, Some b, Some c, None] = Some (tail', [Some a, Some b, Some c, Some d])"
    unfolding g by (rule first_Opt_Some)
  have s: "stops is_digit (''-beta'' @ d @ tail')" by (simp add: stops_dash)
  show ?thesis by (rule ver_prefix [OF assms(1-5) s o])
qed

lemma pkginfo_lines_skip:
  "\<forall>l\<in>set pre. re_match re_ver 4 l = None \<Longrightarrow>
     pkginfo_lines raises (pre @ rest) = pkginfo_lines raises rest"
  by (induction pre) simp_all

lemma first_dot: "first (One cls_dot) (''.'' @ t) g = Some (t, g)"
  by (simp add: first_def cls_dot_def)

lemma git_prefix:
  assumes "digits a" "digits b" "digits c" "stops is_digit tail"
    and "first (Opt (Seq (Lit ''-'') (Seq (Group 4 (Many1 is_digit)) (Seq (Lit ''-g'') (Group 5 (Many1 cls_alnum))))))
           tail [Some a, Some b, Some c, None, None] = Some (t, gs)"
  shows "re_match re_git 5 (a @ ''.'' @ b @ ''.'' @ c @ tail) = Some gs"
proof -
  let ?g0 = "[None, None, None, None, None] :: groups"
  let ?r5 = "Opt (Seq (Lit ''-'') (Seq (Group 4 (Many1 is_digit)) (Seq (Lit ''-g'') (Group 5 (Many1 cls_alnum)))))"
  let ?r4 = "Seq (Group 3 (Many1 is_digit)) ?r5"
  let ?r3 = "Seq (One cls_dot) ?r4"
  let ?r2 = "Seq (Group 2 (Many1 is_digit)) ?r3"
  let ?r1 = "Seq (One cls_dot) ?r2"
  have a: "list_all is_digit a" "a \<noteq> []" and b: "list_all is_digit b" "b \<noteq> []"
    and c: "list_all is_digit c" "c \<noteq> []"
    using assms(1-3) by (simp_all add: digits_def)
  have g3: "?g0[1 - 1 := Some a, 2 - 1 := Some b, 3 - 1 := Some c] = [Some a, Some b, Some c, None, None]"
    by (simp add: eval_nat_numeral)
  have 5: "first ?r4 (c @ tail) (?g0[1 - 1 := Some a, 2 - 1 := Some b]) = Some (t, gs)"
    by (rule first_Seq [OF first_Group_Many1 [OF c assms(4)]]) (simp only: g3 assms(5))
  have 4: "first ?r3 (''.'' @ c @ tail) (?g0[1 - 1 := Some a, 2 - 1 := Some b]) = Some (t, gs)"
    by (rule first_Seq [OF first_dot 5])
  have 3: "first ?r2 (b @ ''.'' @ c @ tail) (?g0[1 - 1 := Some a]) = Some (t, gs)"
    by (rule first_Seq [OF first_Group_Many1 [OF b] 4]) (simp add: stops_dot)
  have 2: "first ?r1 (''.'' @ b @ ''.'' @ c @ tail) (?g0[1 - 1 := Some a]) = Some (t, gs)"
    by (rule first_Seq [OF first_dot 3])
  have 1: "first re_git (a @ ''.'' @ b @ ''.'' @ c @ tail) ?g0 = Some (t, gs)"
    unfolding re_git_def by (rule first_Seq [OF first_Group_Many1 [OF a] 2]) (simp add: stops_dot)
  show ?thesis
    by (rule re_match_first [of _ _ _ t]) (simp only: no_groups_5 1)
qed

lemma git_match_tag:
  assumes "digits a" "digits b" "digits c"
  shows "re_match re_git 5 (a @ ''.'' @ b @ ''.'' @ c) = Some [Some a, Some b, Some c, None, None]"
proof -
  have "run (Seq (Lit ''-'') (Seq (Group 4 (Many1 is_digit)) (Seq (Lit ''-g'') (Group 5 (Many1 cls_alnum)))))
          [] [Some a, Some b, Some c, None, None] = []"
    by simp
  from git_prefix [OF assms _ first_Opt_None [OF this]] show ?thesis
    by (simp add: stops_def)
qed

lemma git_match_commits:
  assumes "digits a" "digits b" "digits c" "digits d" "h \<noteq> []" "list_all cls_alnum h"
    and "stops cls_alnum rest"
  shows "re_match re_git 5 (a @ ''.'' @ b @ ''.'' @ c @ ''-'' @ d @ ''-g'' @ h @ rest) =
           Some [Some a, Some b, Some c, Some d, Some h]"
proof -
  let ?g = "[Some a, Some b, Some c, None, None]"
  have d: "list_all is_digit d" "d \<noteq> []" using assms(4) by (simp_all add: digits_def)
  have g: "?g[4 - 1 := Some d, 5 - 1 := Some h] = [Some a, Some b, Some c, Some d, Some h]"
    by (simp add: eval_nat_numeral)
  have 4: "first (Group 5 (Many1 cls_alnum)) (h @ rest) (?g[4 - 1 := Some d]) =
             Some (rest, [Some a, Some b, Some c, Some d, Some h])"
    using first_Group_Many1 [OF assms(6) assms(5) assms(7), of 5 "?g[4 - 1 := Some d]"]
    by (simp only: g)
  have 3: "first (Seq (Lit ''-g'') (Group 5 (Many1 cls_alnum))) (''-g'' @ h @ rest) (?g[4 - 1 := Some d]) =
             Some (rest, [Some a, Some b, Some c, Some d, Some h])"
    by (rule first_Seq [OF first_Lit 4])
  have 2: "first (Seq (Group 4 (Many1 is_digit)) (Seq (Lit ''-g'') (Group 5 (Many1 cls_alnum))))
             (d @ ''-g'' @ h @ rest) ?g = Some (rest, [Some a, Some b, Some c, Some d, Some h])"
    by (rule first_Seq [OF first_Group_Many1 [OF d] 3]) (simp add: stops_dash)
  have 1: "first (Seq (Lit ''-'') (Seq (Group 4 (Many1 is_digit)) (Seq (Lit ''-g'') (Group 5 (Many1 cls_alnum)))))
             (''-'' @ d @ ''-g'' @ h @ rest) ?g = Some (rest, [Some a, Some b, Some c, Some d, Some h])"
    by (rule first_Seq [OF first_Lit 2])
  have s: "stops is_digit (''-'' @ d @ ''-g'' @ h @ rest)" by (simp add: stops_dash)
  show ?thesis by (rule git_prefix [OF assms(1-3) s first_Opt_Some [OF 1]])
qed

lemma get_version_by_describe:
  assumes "get_version_pkginfo w = Inr (None, None)"
    and "fst (getoutput ''git describe --tag'' w) = (0, text)"
    and "re_match re_git 5 text = Some gs"
    and "git_name_numbers gs = Inr (name, numbers)" and "numbers \<noteq> []"
  shows "\<exists>pre. fst (get_version w) = Inr (Some (pre @ name), Some numbers)"
proof -
  obtain w1 where g1: "getoutput ''git describe --tag'' w = ((0, text), w1)"
    using assms(2) by (cases "getoutput ''git describe --tag'' w") simp
  obtain n' branch_name w2 where g2: "getoutput ''git symbolic-ref --short HEAD'' w1 = ((n', branch_name), w2)"
    by (metis surj_pair)
  show ?thesis
  proof (cases "n' \<noteq> 0 \<and> branch_name \<noteq> ''master''")
    case True
    then have "get_version_git w = (Inr (Some ((branch_name @ ''-'') @ name), Some numbers), w2)"
      by (simp add: get_version_git_def g1 g2 assms(3,4))
    with assms(1,5) have "fst (get_version w) = Inr (Some ((branch_name @ ''-'') @ name), Some numbers)"
      by (simp add: get_version_def falsy_def)
    then show ?thesis by (rule exI)
  next
    case False
    then have "get_version_git w = (Inr (Some ([] @ name), Some numbers), w2)"
      by (auto simp: get_version_git_def g1 g2 assms(3,4))
    with assms(1,5) have "fst (get_version w) = Inr (Some ([] @ name), Some numbers)"
      by (simp add: get_version_def falsy_def)
    then show ?thesis by (rule exI)
  qed
qed

lemma str_nat_small: "n < 10 \<Longrightarrow> length (str_nat n) = 1"
  by (simp add: str_nat.simps)

lemma dec_nonneg_aux: "list_all is_digit s \<Longrightarrow> 0 \<le> k \<Longrightarrow> 0 \<le> foldl (\<lambda>a c. 10 * a + digit_val c) k s"
proof (induction s arbitrary: k)
  case Nil
  then show ?case by simp
next
  case (Cons x s)
  from Cons.prems have "0 \<le> digit_val x" by (auto simp: is_digit_def digit_val_def)
  with Cons.prems have "0 \<le> 10 * k + digit_val x" by simp
  with Cons show ?case by simp
qed

lemma dec_nonneg: "digits s \<Longrightarrow> 0 \<le> dec s"
  by (simp add: dec_def digits_def dec_nonneg_aux)

lemma fmt_02d_small: "0 \<le> n \<Longrightarrow> n < 10 \<Longrightarrow> fmt_02d n = CHR ''0'' # str_int n"
  by (simp add: fmt_02d_def str_int_def str_nat_small)

section \<open>The branch prefix\<close>

text \<open>
  C2.  The specification prefixes the name with the branch when the branch query succeeds
  and the branch is not the primary one, and adds nothing when the query fails.  The
  script tests the exit status the other way round.  With describe output
  \<^verbatim>\<open>2.1.4-7-gabc1234\<close>: a query that succeeds and answers \<^verbatim>\<open>feature-x\<close> leaves the name
  without prefix, and a query that fails (status 128, nothing printed) puts the empty
  answer and a dash in front of it.
\<close>

theorem branch_prefix_on_failure_only:
  "fst (get_version (mk_world None (''2.1.4-7-gabc1234'' @ [CHR 0x0A], None)
                              (''feature-x'' @ [CHR 0x0A], None)))
     = Inr (Some ''2.1.5-beta07-[IOPRO]-[abc1234]'', Some [2, 1, 5, 7]) \<and>
   fst (get_version (mk_world None (''2.1.4-7-gabc1234'' @ [CHR 0x0A], None) ([], Some 128)))
     = Inr (Some ''-2.1.5-beta07-[IOPRO]-[abc1234]'', Some [2, 1, 5, 7])"
  by (simp add: version_defs str_defs)

section \<open>Describe output that is not dotted\<close>

text \<open>
  C5.  The specification treats describe output that does not match its pattern, with
  literal dots, as the absence of a tag.  The dots of the script's pattern are not
  escaped: the tag \<^verbatim>\<open>2014-01-15\<close> does not match the specification's pattern, and the
  script resolves it to the official version 2014.01.15 instead of the default.
\<close>

theorem undotted_tag_accepted:
  "re_match re_git_spec 5 ''2014-01-15'' = None \<and>
   fst (get_version (mk_world None (''2014-01-15'' @ [CHR 0x0A], None)
                              (''master'' @ [CHR 0x0A], None)))
     = Inr (Some ''2014.01.15-[IOPro]'', Some [2014, 1, 15, 9999])"
  by (simp add: version_defs str_defs re_git_spec_def is_hex_def)

section \<open>The path locator\<close>

text \<open>
  C9.  The specification aborts unless a directory whose name ends with the
  interpreter's version suffix holds the compiled module.  The script filters the
  directory names into a local variable and walks the whole tree all the same: under
  Python 2.7, with the module only in \<^verbatim>\<open>build/lib.linux-x86_64-2.6\<close>, it does not abort
  and puts that directory in front of the search path.
\<close>

theorem add_to_path_ignores_version_suffix:
  "add_to_path
     \<lparr>suffixes = [(''.so'', ''rb'', 3), (''.py'', ''U'', 1)], version_info = (2, 7),
      script_dir = ''/src'',
      build_tree = Some (Dir [(''lib.linux-x86_64-2.6'', Dir [] [''pyodbcconf.so''])] [])\<rparr>
     [''/usr/lib/python2.7'']
   = Inr [''/src/build/lib.linux-x86_64-2.6'', ''/usr/lib/python2.7''] \<and>
   \<not> endswith ''lib.linux-x86_64-2.6'' ''-2.7''"
  by (simp add: add_to_path_def C_EXTENSION_def path_join_def startswith_def endswith_def
      str_int_def str_nat.simps)

section \<open>The build number\<close>




section \<open>Precedence of the manifest\<close>

text \<open>
  C6.  As stated, a manifest with a line that matches the Version pattern, which the
  specification gives with \<^verbatim>\<open>\s*\<close> after the colon, would settle the version without
  version control being consulted.  The line \<^verbatim>\<open>Version:2.1.4\<close> matches that pattern and
  not the script's: the manifest tier returns nothing, and resolution starts the describe
  command and the branch query and returns what they give.
\<close>

theorem manifest_without_blank_runs_git:
  "re_match re_ver_spec 4 (''Version:2.1.4'' @ [CHR 0x0A]) = Some [Some ''2'', Some ''1'', Some ''4'', None] \<and>
   fst (get_version (mk_world (Some [''Version:2.1.4'' @ [CHR 0x0A]])
                       (''2.1.3-7-gabc1234'' @ [CHR 0x0A], None) (''master'' @ [CHR 0x0A], None)))
     = Inr (Some ''2.1.4-beta07-[IOPRO]-[abc1234]'', Some [2, 1, 4, 7]) \<and>
   spawned (snd (get_version (mk_world (Some [''Version:2.1.4'' @ [CHR 0x0A]])
                       (''2.1.3-7-gabc1234'' @ [CHR 0x0A], None) (''master'' @ [CHR 0x0A], None))))
     = [''git describe --tag'', ''git symbolic-ref --short HEAD'']"
  by (simp add: version_defs str_defs re_ver_spec_def)

text \<open>
  C6, amended.  When the manifest exists and one of its lines matches the manifest
  pattern of the script, with at least one blank after the colon, version resolution
  returns what the manifest tier returns, a name and four numbers, and leaves the world
  as it was: no command has been spawned.
\<close>

theorem manifest_takes_precedence:
  assumes "pkg_info w = Some lines" and "l \<in> set lines" and "re_match re_ver 4 l \<noteq> None"
  shows "get_version w = (get_version_pkginfo w, w) \<and>
         (\<exists>name a b c d. get_version_pkginfo w = Inr (Some name, Some [a, b, c, d])) \<and>
         spawned (snd (get_version w)) = spawned w"
proof -
  from assms have "List.find (\<lambda>l. re_match re_ver 4 l \<noteq> None) lines \<noteq> None"
    by (auto simp: find_None_iff)
  with assms(1) obtain l' where "manifest_line w = Some l'"
    by (auto simp: manifest_line_def)
  from get_version_manifest [OF this] show ?thesis by auto
qed

theorem manifest_takes_precedence_witness:
  "pkg_info (mk_world (Some [''Metadata-Version: 1.0'' @ [CHR 0x0A], ''Version: 2.1.4'' @ [CHR 0x0A]])
               (''2.1.3-7-gabc1234'' @ [CHR 0x0A], None) (''feature-x'' @ [CHR 0x0A], None))
     = Some [''Metadata-Version: 1.0'' @ [CHR 0x0A], ''Version: 2.1.4'' @ [CHR 0x0A]] \<and>
   re_match re_ver 4 (''Version: 2.1.4'' @ [CHR 0x0A]) \<noteq> None \<and>
   fst (get_version (mk_world (Some [''Metadata-Version: 1.0'' @ [CHR 0x0A], ''Version: 2.1.4'' @ [CHR 0x0A]])
               (''2.1.3-7-gabc1234'' @ [CHR 0x0A], None) (''feature-x'' @ [CHR 0x0A], None)))
     = Inr (Some ''2.1.4'', Some [2, 1, 4, 9999]) \<and>
   spawned (snd (get_version (mk_world (Some [''Metadata-Version: 1.0'' @ [CHR 0x0A], ''Version: 2.1.4'' @ [CHR 0x0A]])
               (''2.1.3-7-gabc1234'' @ [CHR 0x0A], None) (''feature-x'' @ [CHR 0x0A], None)))) = []"
proof -
  let ?lines = "[''Metadata-Version: 1.0'' @ [CHR 0x0A], ''Version: 2.1.4'' @ [CHR 0x0A]]"
  let ?w = "mk_world (Some ?lines) (''2.1.3-7-gabc1234'' @ [CHR 0x0A], None) (''feature-x'' @ [CHR 0x0A], None)"
  have p: "pkg_info ?w = Some ?lines" by (simp add: mk_world_def)
  have l: "''Version: 2.1.4'' @ [CHR 0x0A] \<in> set ?lines" by simp
  have m: "re_match re_ver 4 (''Version: 2.1.4'' @ [CHR 0x0A]) \<noteq> None"
    by (simp add: version_defs str_defs)
  have v: "get_version_pkginfo ?w = Inr (Some ''2.1.4'', Some [2, 1, 4, 9999])"
    by (simp add: version_defs str_defs)
  have s: "spawned ?w = []" by (simp add: mk_world_def)
  from manifest_takes_precedence [OF p l m] p m v s show ?thesis by simp
qed

text \<open>The version-control tier, by contrast, always starts the describe command.\<close>

lemma get_version_git_spawns:
  "\<exists>cmds. spawned (snd (get_version_git w)) = spawned w @ ''git describe --tag'' # cmds"
proof -
  have "spawned (snd (get_version_git w)) = spawned w @ [''git describe --tag''] \<or>
        spawned (snd (get_version_git w)) =
          spawned w @ [''git describe --tag'', ''git symbolic-ref --short HEAD'']"
    by (simp add: get_version_git_def getoutput_def Let_def split: option.split sum.split prod.split)
  then show ?thesis by auto
qed

section \<open>The default and the errors that reach the caller\<close>




section \<open>The manifest line\<close>

text \<open>
  C7.  As stated, any amount of blank space after the colon would do, none included.  The
  pattern of the script asks for at least one blank: the line \<^verbatim>\<open>Version:2.1.4\<close> matches
  the pattern of the specification and not the script's, and with no tag to describe
  resolution ends at the default.
\<close>

theorem version_pattern_needs_blank:
  "re_match re_ver_spec 4 (''Version:2.1.4'' @ [CHR 0x0A]) = Some [Some ''2'', Some ''1'', Some ''4'', None] \<and>
   fst (get_version (mk_world (Some [''Version:2.1.4'' @ [CHR 0x0A]]) ([], Some 128) ([], Some 128)))
     = Inr (Some ''3.0.0-unsupported'', Some [3, 0, 0, 0])"
  by (simp add: version_defs str_defs re_ver_spec_def)

text \<open>
  C7, amended.  Let the first line of the manifest that matches be \<^verbatim>\<open>Version:\<close>, at least
  one blank, three runs of digits separated by dots, and a tail that does not go on with
  a digit.  Then version resolution returns, without touching the world, the name that
  is the line after the colon, trimmed, and the numbers major, minor, micro and build:
  the sentinel when the tail does not start with \<^verbatim>\<open>-beta\<close> and a digit, and the number
  after \<^verbatim>\<open>-beta\<close> when it does.
\<close>

theorem manifest_version:
  assumes "pkg_info w = Some (pre @ line # post)"
    and "\<forall>l\<in>set pre. re_match re_ver 4 l = None"
    and "line = ''Version:'' @ ws @ a @ ''.'' @ b @ ''.'' @ c @ tail"
    and "ws \<noteq> []" "list_all is_space ws" "digits a" "digits b" "digits c"
    and "(\<not> beta_ahead tail \<and> stops is_digit tail \<and> build = OFFICIAL_BUILD) \<or>
         (\<exists>d tail'. tail = ''-beta'' @ d @ tail' \<and> digits d \<and> stops is_digit tail' \<and> build = dec d)"
  shows "get_version w =
           (Inr (Some (strip (ws @ a @ ''.'' @ b @ ''.'' @ c @ tail)), Some [dec a, dec b, dec c, build]), w)"
proof -
  from assms(9) obtain x where m: "re_match re_ver 4 line = Some [Some a, Some b, Some c, x]"
    and x: "x = None \<or> (\<exists>d. digits d \<and> x = Some d)" and bx: "build = build_of x"
  proof
    assume h: "\<not> beta_ahead tail \<and> stops is_digit tail \<and> build = OFFICIAL_BUILD"
    then have "re_match re_ver 4 line = Some [Some a, Some b, Some c, None]"
      unfolding assms(3) using ver_match_official [OF assms(4-8)] by blast
    with h that [of None] show ?thesis by (simp add: build_of_def)
  next
    assume "\<exists>d tail'. tail = ''-beta'' @ d @ tail' \<and> digits d \<and> stops is_digit tail' \<and> build = dec d"
    then obtain d tail' where t: "tail = ''-beta'' @ d @ tail'" and d: "digits d"
      and s: "stops is_digit tail'" and b: "build = dec d" by blast
    have "re_match re_ver 4 line = Some [Some a, Some b, Some c, Some d]"
      unfolding assms(3) t by (rule ver_match_beta [OF assms(4-8) d s])
    with d b that [of "Some d"] show ?thesis by (simp add: build_of_def)
  qed
  have "pkginfo_line line [Some a, Some b, Some c, x] =
          Inr (Some (strip (ws @ a @ ''.'' @ b @ ''.'' @ c @ tail)), Some [dec a, dec b, dec c, build])"
    unfolding assms(3) bx by (rule pkginfo_line_shape [OF assms(6-8) x])
  with m have "pkginfo_lines (pkg_info_raises w) (line # post) =
          Inr (Some (strip (ws @ a @ ''.'' @ b @ ''.'' @ c @ tail)), Some [dec a, dec b, dec c, build])"
    by simp
  with assms(1) pkginfo_lines_skip [OF assms(2), of "pkg_info_raises w" "line # post"]
  have "get_version_pkginfo w =
          Inr (Some (strip (ws @ a @ ''.'' @ b @ ''.'' @ c @ tail)), Some [dec a, dec b, dec c, build])"
    by (simp add: get_version_pkginfo_def)
  then show ?thesis by (simp add: get_version_def falsy_def)
qed

theorem manifest_version_witness:
  "get_version (mk_world (Some [''Metadata-Version: 1.0'' @ [CHR 0x0A], ''Version: 2.1.4'' @ [CHR 0x0A]])
                  ([], Some 128) ([], Some 128))
     = (Inr (Some ''2.1.4'', Some [2, 1, 4, 9999]),
        mk_world (Some [''Metadata-Version: 1.0'' @ [CHR 0x0A], ''Version: 2.1.4'' @ [CHR 0x0A]])
                  ([], Some 128) ([], Some 128)) \<and>
   get_version (mk_world (Some [''Version:  2.1.4-beta3'' @ [CHR 0x0A]]) ([], Some 128) ([], Some 128))
     = (Inr (Some ''2.1.4-beta3'', Some [2, 1, 4, 3]),
        mk_world (Some [''Version:  2.1.4-beta3'' @ [CHR 0x0A]]) ([], Some 128) ([], Some 128))"
proof -
  let ?w1 = "mk_world (Some [''Metadata-Version: 1.0'' @ [CHR 0x0A], ''Version: 2.1.4'' @ [CHR 0x0A]])
                  ([], Some 128) ([], Some 128)"
  let ?w2 = "mk_world (Some [''Version:  2.1.4-beta3'' @ [CHR 0x0A]]) ([], Some 128) ([], Some 128)"
  have p1: "pkg_info ?w1 = Some ([''Metadata-Version: 1.0'' @ [CHR 0x0A]] @ (''Version: 2.1.4'' @ [CHR 0x0A]) # [])"
    by (simp add: mk_world_def)
  have n1: "\<forall>l\<in>set [''Metadata-Version: 1.0'' @ [CHR 0x0A]]. re_match re_ver 4 l = None"
    by (simp add: re_match_def re_ver_def)
  have l1: "''Version: 2.1.4'' @ [CHR 0x0A] = ''Version:'' @ '' '' @ ''2'' @ ''.'' @ ''1'' @ ''.'' @ ''4'' @ [CHR 0x0A]"
    by simp
  have t1: "(\<not> beta_ahead [CHR 0x0A] \<and> stops is_digit [CHR 0x0A] \<and> 9999 = OFFICIAL_BUILD) \<or>
         (\<exists>d tail'. [CHR 0x0A] = ''-beta'' @ d @ tail' \<and> digits d \<and> stops is_digit tail' \<and> 9999 = dec d)"
    by (simp add: beta_ahead_def stops_def is_digit_def OFFICIAL_BUILD_def)
  have p2: "pkg_info ?w2 = Some ([] @ (''Version:  2.1.4-beta3'' @ [CHR 0x0A]) # [])"
    by (simp add: mk_world_def)
  have n2: "\<forall>l\<in>set []. re_match re_ver 4 l = None" by simp
  have l2: "''Version:  2.1.4-beta3'' @ [CHR 0x0A] =
      ''Version:'' @ ''  '' @ ''2'' @ ''.'' @ ''1'' @ ''.'' @ ''4'' @ ''-beta3'' @ [CHR 0x0A]"
    by simp
  have "''-beta3'' @ [CHR 0x0A] = ''-beta'' @ ''3'' @ [CHR 0x0A] \<and> digits ''3'' \<and>
      stops is_digit [CHR 0x0A] \<and> 3 = dec ''3''"
    by (simp add: digits_def stops_def is_digit_def dec_def digit_val_def)
  then have t2: "(\<not> beta_ahead (''-beta3'' @ [CHR 0x0A]) \<and> stops is_digit (''-beta3'' @ [CHR 0x0A]) \<and> 3 = OFFICIAL_BUILD) \<or>
         (\<exists>d tail'. ''-beta3'' @ [CHR 0x0A] = ''-beta'' @ d @ tail' \<and> digits d \<and> stops is_digit tail' \<and> 3 = dec d)"
    by blast
  have sp: "'' '' \<noteq> []" "list_all is_space '' ''" "''  '' \<noteq> []" "list_all is_space ''  ''"
    by (simp_all add: is_space_def)
  have dg: "digits ''2''" "digits ''1''" "digits ''4''"
    by (simp_all add: digits_def is_digit_def)
  from manifest_version [OF p1 n1 l1 sp(1,2) dg t1] manifest_version [OF p2 n2 l2 sp(3,4) dg t2]
  show ?thesis by (simp add: str_defs)
qed

section \<open>Describe output on a tag\<close>

text \<open>
  C4.  As stated, the build number would be the sentinel also when the commit distance is
  zero.  A distance that the output spells out is a counter like any other:
  \<^verbatim>\<open>2.1.4-0-gabc1234\<close> resolves to the beta 2.1.5 with build number 0.
\<close>

theorem zero_distance_suffix_is_beta:
  "fst (get_version (mk_world None (''2.1.4-0-gabc1234'' @ [CHR 0x0A], None) (''master'' @ [CHR 0x0A], None)))
     = Inr (Some ''2.1.5-beta00-[IOPRO]-[abc1234]'', Some [2, 1, 5, 0])"
  by (simp add: version_defs str_defs)

text \<open>
  C4, amended.  When the manifest gives nothing and the describe command succeeds with
  three runs of digits separated by dots and no suffix, the numbers are major, minor,
  micro and the sentinel, and the name ends with the three runs as printed, dotted,
  followed by \<^verbatim>\<open>-[IOPro]\<close>.
\<close>

theorem tag_is_official:
  assumes "get_version_pkginfo w = Inr (None, None)"
    and "fst (getoutput ''git describe --tag'' w) = (0, a @ ''.'' @ b @ ''.'' @ c)"
    and "digits a" "digits b" "digits c"
  shows "\<exists>pre. fst (get_version w) =
           Inr (Some (pre @ a @ ''.'' @ b @ ''.'' @ c @ ''-[IOPro]''), Some [dec a, dec b, dec c, OFFICIAL_BUILD])"
proof -
  have "git_name_numbers [Some a, Some b, Some c, None, None] =
          Inr (a @ ''.'' @ b @ ''.'' @ c @ ''-[IOPro]'', [dec a, dec b, dec c, OFFICIAL_BUILD])"
    using git_name_numbers_shape [OF assms(3-5), of None None] by (simp add: build_of_def)
  from get_version_by_describe [OF assms(1,2) git_match_tag [OF assms(3-5)] this] show ?thesis
    by simp
qed

theorem tag_is_official_witness:
  "get_version_pkginfo (mk_world None (''2.1.4'' @ [CHR 0x0A], None) (''master'' @ [CHR 0x0A], None))
     = Inr (None, None) \<and>
   fst (getoutput ''git describe --tag''
          (mk_world None (''2.1.4'' @ [CHR 0x0A], None) (''master'' @ [CHR 0x0A], None))) = (0, ''2.1.4'') \<and>
   (\<exists>pre. fst (get_version (mk_world None (''2.1.4'' @ [CHR 0x0A], None) (''master'' @ [CHR 0x0A], None)))
     = Inr (Some (pre @ ''2.1.4-[IOPro]''), Some [2, 1, 4, 9999]))"
proof -
  let ?w = "mk_world None (''2.1.4'' @ [CHR 0x0A], None) (''master'' @ [CHR 0x0A], None)"
  have p: "get_version_pkginfo ?w = Inr (None, None)" by (simp add: version_defs)
  have g: "fst (getoutput ''git describe --tag'' ?w) = (0, ''2'' @ ''.'' @ ''1'' @ ''.'' @ ''4'')"
    by (simp add: version_defs str_defs)
  have dg: "digits ''2''" "digits ''1''" "digits ''4''"
    by (simp_all add: digits_def is_digit_def)
  have v: "dec ''2'' = 2" "dec ''1'' = 1" "dec ''4'' = 4" by (simp_all add: str_defs)
  from tag_is_official [OF p g dg] p g show ?thesis by (simp add: v OFFICIAL_BUILD_def)
qed

section \<open>Describe output past a tag\<close>

text \<open>
  C1.  As stated, the numbers returned would be the tuple as parsed, \<^verbatim>\<open>[2,1,4,7]\<close> for
  \<^verbatim>\<open>2.1.4-7-gabc1234\<close>.  The script increments the micro number in the list it returns,
  so the numbers are \<^verbatim>\<open>[2,1,5,7]\<close>.
\<close>

theorem beta_numbers_incremented:
  "fst (get_version (mk_world None (''2.1.4-7-gabc1234'' @ [CHR 0x0A], None) (''master'' @ [CHR 0x0A], None)))
     = Inr (Some ''2.1.5-beta07-[IOPRO]-[abc1234]'', Some [2, 1, 5, 7]) \<and>
   fst (get_version (mk_world None (''2.1.4-7-gabc1234'' @ [CHR 0x0A], None) (''master'' @ [CHR 0x0A], None)))
     \<noteq> Inr (Some ''2.1.5-beta07-[IOPRO]-[abc1234]'', Some [2, 1, 4, 7])"
  by (simp add: version_defs str_defs)

text \<open>
  C1, amended.  When the manifest gives nothing and the describe command succeeds with
  MAJOR.MINOR.MICRO-N-gHASH, where N does not read 9999, the numbers are major, minor,
  micro plus one and N, and the name ends with the incremented version, \<^verbatim>\<open>-beta\<close> and N
  padded with a zero to two digits, \<^verbatim>\<open>-[IOPRO]-[\<close>, the hash and \<^verbatim>\<open>]\<close>.
\<close>

theorem commits_past_tag_is_beta:
  assumes "get_version_pkginfo w = Inr (None, None)"
    and "fst (getoutput ''git describe --tag'' w) = (0, a @ ''.'' @ b @ ''.'' @ c @ ''-'' @ d @ ''-g'' @ h @ rest)"
    and "digits a" "digits b" "digits c" "digits d" "h \<noteq> []" "list_all cls_alnum h" "stops cls_alnum rest"
    and "dec d \<noteq> OFFICIAL_BUILD"
  shows "(\<exists>pre. fst (get_version w) =
           Inr (Some (pre @ str_int (dec a) @ ''.'' @ str_int (dec b) @ ''.'' @ str_int (dec c + 1) @
                      ''-beta'' @ fmt_02d (dec d) @ ''-[IOPRO]-['' @ h @ '']''),
                Some [dec a, dec b, dec c + 1, dec d])) \<and>
         (dec d < 10 \<longrightarrow> fmt_02d (dec d) = CHR ''0'' # str_int (dec d))"
proof
  have "git_name_numbers [Some a, Some b, Some c, Some d, Some h] =
          Inr (str_int (dec a) @ ''.'' @ str_int (dec b) @ ''.'' @ str_int (dec c + 1) @
                      ''-beta'' @ fmt_02d (dec d) @ ''-[IOPRO]-['' @ h @ '']'',
               [dec a, dec b, dec c + 1, dec d])"
    using git_name_numbers_shape [OF assms(3-5), of "Some d" "Some h"] assms(6,10)
    by (simp add: build_of_def str_group_def)
  from get_version_by_describe [OF assms(1,2) git_match_commits [OF assms(3-9)] this]
  show "\<exists>pre. fst (get_version w) =
           Inr (Some (pre @ str_int (dec a) @ ''.'' @ str_int (dec b) @ ''.'' @ str_int (dec c + 1) @
                      ''-beta'' @ fmt_02d (dec d) @ ''-[IOPRO]-['' @ h @ '']''),
                Some [dec a, dec b, dec c + 1, dec d])"
    by simp
next
  from dec_nonneg [OF assms(6)] show "dec d < 10 \<longrightarrow> fmt_02d (dec d) = CHR ''0'' # str_int (dec d)"
    by (simp add: fmt_02d_small)
qed

theorem commits_past_tag_is_beta_witness:
  "get_version_pkginfo (mk_world None (''2.1.4-7-gabc1234'' @ [CHR 0x0A], None) (''master'' @ [CHR 0x0A], None))
     = Inr (None, None) \<and>
   fst (getoutput ''git describe --tag''
          (mk_world None (''2.1.4-7-gabc1234'' @ [CHR 0x0A], None) (''master'' @ [CHR 0x0A], None)))
     = (0, ''2.1.4-7-gabc1234'') \<and>
   dec ''7'' \<noteq> OFFICIAL_BUILD \<and>
   (\<exists>pre. fst (get_version (mk_world None (''2.1.4-7-gabc1234'' @ [CHR 0x0A], None) (''master'' @ [CHR 0x0A], None)))
     = Inr (Some (pre @ ''2.1.5-beta07-[IOPRO]-[abc1234]''), Some [2, 1, 5, 7]))"
proof -
  let ?w = "mk_world None (''2.1.4-7-gabc1234'' @ [CHR 0x0A], None) (''master'' @ [CHR 0x0A], None)"
  have p: "get_version_pkginfo ?w = Inr (None, None)" by (simp add: version_defs)
  have g: "fst (getoutput ''git describe --tag'' ?w) =
             (0, ''2'' @ ''.'' @ ''1'' @ ''.'' @ ''4'' @ ''-'' @ ''7'' @ ''-g'' @ ''abc1234'' @ [])"
    by (simp add: version_defs str_defs)
  have dg: "digits ''2''" "digits ''1''" "digits ''4''" "digits ''7''"
    by (simp_all add: digits_def is_digit_def)
  have h: "''abc1234'' \<noteq> []" "list_all cls_alnum ''abc1234''" "stops cls_alnum []"
    by (simp_all add: cls_alnum_def is_digit_def is_lower_def stops_def)
  have n: "dec ''7'' \<noteq> OFFICIAL_BUILD" by (simp add: str_defs OFFICIAL_BUILD_def)
  have v: "dec ''2'' = 2" "dec ''1'' = 1" "dec ''4'' = 4" "dec ''7'' = 7" by (simp_all add: str_defs)
  have f: "str_int 2 = ''2''" "str_int 1 = ''1''" "str_int 5 = ''5''" "fmt_02d 7 = ''07''"
    by (simp_all add: str_defs)
  from commits_past_tag_is_beta [OF p g dg h n] p g n show ?thesis by (simp add: v f)
qed

section \<open>Flags taken from the argument list\<close>













end
